theory Spec2Isabelle
  imports Complex_Main
begin

section \<open>Values, errors and array access\<close>

text \<open>
  The analysis code of \<^verbatim>\<open>Analysis/ImageProcessing.py\<close> works on numpy arrays of
  floating-point numbers. A float is modelled as an exact real number or NaN: rounding,
  overflow and the infinities are not modelled. NaN is kept because the program produces
  it (the quotient 0/0 of a constant row, the mean of an empty array) where it raises
  nothing. Pixels, scales and thresholds are finite numbers, hence reals.
\<close>

datatype npfloat = Finite real | NaN

text \<open>The exceptions that the Python code can raise.\<close>

datatype error = IndexError | ValueError | TypeError | ZeroDivisionError

type_synonym image = "real list list"

fun np_lift2 :: "(real \<Rightarrow> real \<Rightarrow> real) \<Rightarrow> npfloat \<Rightarrow> npfloat \<Rightarrow> npfloat" where
  "np_lift2 f (Finite a) (Finite b) = Finite (f a b)"
| "np_lift2 f _ _ = NaN"

definition np_add :: "npfloat \<Rightarrow> npfloat \<Rightarrow> npfloat" where
  "np_add = np_lift2 (\<lambda>a b. a + b)"

definition np_sub :: "npfloat \<Rightarrow> npfloat \<Rightarrow> npfloat" where
  "np_sub = np_lift2 (\<lambda>a b. a - b)"

definition np_mul :: "npfloat \<Rightarrow> npfloat \<Rightarrow> npfloat" where
  "np_mul = np_lift2 (\<lambda>a b. a * b)"

text \<open>\<^verbatim>\<open>np.maximum\<close> propagates NaN.\<close>

definition np_maximum :: "npfloat \<Rightarrow> npfloat \<Rightarrow> npfloat" where
  "np_maximum = np_lift2 max"

fun np_neg :: "npfloat \<Rightarrow> npfloat" where
  "np_neg (Finite a) = Finite (- a)"
| "np_neg NaN = NaN"

text \<open>\<^verbatim>\<open>np.sqrt\<close>: NaN on a negative argument.\<close>

fun np_sqrt :: "npfloat \<Rightarrow> npfloat" where
  "np_sqrt (Finite a) = (if a < 0 then NaN else Finite (sqrt a))"
| "np_sqrt NaN = NaN"

text \<open>Comparisons with NaN are false.\<close>

fun np_lt :: "npfloat \<Rightarrow> npfloat \<Rightarrow> bool" where
  "np_lt (Finite a) (Finite b) = (a < b)"
| "np_lt _ _ = False"

fun np_eq :: "npfloat \<Rightarrow> npfloat \<Rightarrow> bool" where
  "np_eq (Finite a) (Finite b) = (a = b)"
| "np_eq _ _ = False"

fun np_le :: "npfloat \<Rightarrow> npfloat \<Rightarrow> bool" where
  "np_le (Finite a) (Finite b) = (a \<le> b)"
| "np_le _ _ = False"

text \<open>
  The builtin \<^verbatim>\<open>sum\<close> starts from 0 and adds from the left; \<^verbatim>\<open>np.mean\<close> of an empty
  array is NaN (with a warning, no exception); \<^verbatim>\<open>np.std\<close> is the square root of the mean
  squared deviation from the mean.
\<close>

definition py_sum :: "npfloat list \<Rightarrow> npfloat" where
  "py_sum xs = foldl np_add (Finite 0) xs"

definition np_mean :: "npfloat list \<Rightarrow> npfloat" where
  "np_mean xs = (if xs = [] then NaN
                 else np_lift2 (\<lambda>s n. s / n) (py_sum xs) (Finite (real (length xs))))"

definition np_std :: "npfloat list \<Rightarrow> npfloat" where
  "np_std xs = (let m = np_mean xs
                in np_sqrt (np_mean (map (\<lambda>x. np_mul (np_sub x m) (np_sub x m)) xs)))"

text \<open>
  A slice \<^verbatim>\<open>xs[start:stop]\<close>: a negative bound counts from the end, and both bounds are
  clamped to the length.
\<close>

definition py_slice :: "'a list \<Rightarrow> int \<Rightarrow> int \<Rightarrow> 'a list" where
  "py_slice xs start stop =
     (let n = int (length xs);
          s = (if start < 0 then max (start + n) 0 else min start n);
          e = (if stop < 0 then max (stop + n) 0 else min stop n)
      in take (nat (e - s)) (drop (nat s) xs))"

text \<open>A bound of a slice after that adjustment, for a sequence of length \<open>n\<close>.\<close>

definition clamp_bound :: "nat \<Rightarrow> int \<Rightarrow> int" where
  "clamp_bound n a = (if a < 0 then max (a + int n) 0 else min a (int n))"

text \<open>An index \<^verbatim>\<open>xs[i]\<close>: a negative index counts from the end; out of range raises.\<close>

definition py_index :: "'a list \<Rightarrow> int \<Rightarrow> error + 'a" where
  "py_index xs i =
     (let n = int (length xs); j = (if i < 0 then i + n else i)
      in if 0 \<le> j \<and> j < n then Inr (xs ! nat j) else Inl IndexError)"

text \<open>\<^verbatim>\<open>range(a, b)\<close>.\<close>

definition py_range :: "int \<Rightarrow> int \<Rightarrow> int list" where
  "py_range a b = map (\<lambda>k. a + int k) [0..<nat (b - a)]"

text \<open>
  An image is a two-dimensional array, here the list of its rows, all of one length.
  \<^verbatim>\<open>image.shape\<close> is (number of rows, number of columns).
\<close>

definition nrows :: "image \<Rightarrow> nat" where
  "nrows img = length img"

definition ncols :: "image \<Rightarrow> nat" where
  "ncols img = (case img of [] \<Rightarrow> 0 | r # _ \<Rightarrow> length r)"

definition rect :: "nat \<Rightarrow> nat \<Rightarrow> image \<Rightarrow> bool" where
  "rect R C img = (length img = R \<and> 0 < R \<and> list_all (\<lambda>r. length r = C) img)"

text \<open>\<^verbatim>\<open>image[r0:r1, c0:c1]\<close>.\<close>

definition slice2 :: "image \<Rightarrow> int \<Rightarrow> int \<Rightarrow> int \<Rightarrow> int \<Rightarrow> image" where
  "slice2 img r0 r1 c0 c1 = map (\<lambda>row. py_slice row c0 c1) (py_slice img r0 r1)"

text \<open>\<^verbatim>\<open>image[:, c0:c1]\<close>.\<close>

definition slice_cols :: "image \<Rightarrow> int \<Rightarrow> int \<Rightarrow> image" where
  "slice_cols img c0 c1 = map (\<lambda>row. py_slice row c0 c1) img"

section \<open>Intensity profiles\<close>

text \<open>
  The builtins \<^verbatim>\<open>min\<close> and \<^verbatim>\<open>max\<close> over a non-empty sequence; on an empty one
  they raise ValueError, which \<open>normalize_1D_array\<close> checks before calling them.
\<close>

fun py_min :: "real list \<Rightarrow> real" where
  "py_min [] = 0"
| "py_min (x # xs) = fold min xs x"

fun py_max :: "real list \<Rightarrow> real" where
  "py_max [] = 0"
| "py_max (x # xs) = fold max xs x"

text \<open>
  \<^verbatim>\<open>(array - min(array)) / (max(array) - min(array))\<close>. When the maximum equals the
  minimum every numerator is 0 too, and numpy's quotient 0/0 is NaN, with a warning and
  no exception.
\<close>

definition normalize_1D_array :: "real list \<Rightarrow> error + npfloat list" where
  "normalize_1D_array array =
     (if array = [] then Inl ValueError
      else let lo = py_min array; hi = py_max array
           in if hi - lo = 0 then Inr (map (\<lambda>x. NaN) array)
              else Inr (map (\<lambda>x. Finite ((x - lo) / (hi - lo))) array))"

definition get_intensity_profile :: "image \<Rightarrow> int \<Rightarrow> bool \<Rightarrow> error + npfloat list" where
  "get_intensity_profile img row invert_profile =
     (case py_index img row of
        Inl e \<Rightarrow> Inl e
      | Inr r \<Rightarrow>
          (case normalize_1D_array r of
             Inl e \<Rightarrow> Inl e
           | Inr v \<Rightarrow> if invert_profile then Inr (map (np_sub (Finite 1)) v) else Inr v))"

text \<open>\<^verbatim>\<open>np.diff(intensity_profile * scale_factor)\<close>: one element shorter than the profile.\<close>

definition np_diff :: "npfloat list \<Rightarrow> npfloat list" where
  "np_diff xs = map (\<lambda>(a, b). np_sub b a) (zip xs (tl xs))"

definition get_intensity_profile_dy :: "npfloat list \<Rightarrow> real \<Rightarrow> npfloat list" where
  "get_intensity_profile_dy intensity_profile scale_factor =
     np_diff (map (\<lambda>v. np_mul v (Finite scale_factor)) intensity_profile)"

section \<open>Smoothing and edge detection\<close>

text \<open>
  \<open>filter_data\<close> designs a Butterworth low-pass filter (\<^verbatim>\<open>scipy.signal.butter\<close>) and applies
  it forwards and backwards (\<^verbatim>\<open>scipy.signal.filtfilt\<close>). Both are library code whose
  arithmetic is floating point, so the pair is a parameter of the model: a function from
  the filter order, the cut-off frequency and the data to the filtered data, or to the
  exception the library raises (ValueError on an input that is too short).
\<close>

type_synonym butter_filter = "nat \<Rightarrow> real \<Rightarrow> npfloat list \<Rightarrow> error + npfloat list"

definition filter_data :: "butter_filter \<Rightarrow> npfloat list \<Rightarrow> nat \<Rightarrow> real \<Rightarrow> error + npfloat list" where
  "filter_data butter_filtfilt data filter_order cutoff_freq =
     butter_filtfilt filter_order cutoff_freq data"

text \<open>
  \<^verbatim>\<open>scipy.signal.find_peaks(x, height=h)\<close> is library code as well. It is modelled after the
  library's own description: first all local maxima of \<open>x\<close> are found by comparing
  neighbours (a sample larger than its left neighbour, followed by a plateau of equal
  samples that ends in a smaller sample, with the first and the last sample never a
  peak; a plateau yields its middle index, rounded down), then only the peaks whose
  value is at least \<open>h\<close> are kept, in ascending order.
\<close>

function plateau_end :: "npfloat list \<Rightarrow> nat \<Rightarrow> nat \<Rightarrow> nat" where
  "plateau_end x i i_ahead =
     (if i_ahead + 1 < length x \<and> np_eq (x ! i_ahead) (x ! i)
      then plateau_end x i (i_ahead + 1) else i_ahead)"
  by pat_completeness auto
termination
  by (relation "measure (\<lambda>(x, i, i_ahead). length x - i_ahead)") auto

declare plateau_end.simps [simp del]

function local_maxima_from :: "npfloat list \<Rightarrow> nat \<Rightarrow> nat list" where
  "local_maxima_from x i =
     (if i + 1 < length x
      then (if np_lt (x ! (i - 1)) (x ! i)
            then (if np_lt (x ! plateau_end x i (i + 1)) (x ! i)
                  then ((i + (plateau_end x i (i + 1) - 1)) div 2)
                         # local_maxima_from x (plateau_end x i (i + 1) + 1)
                  else local_maxima_from x (i + 1))
            else local_maxima_from x (i + 1))
      else [])"
  by pat_completeness auto
termination
proof (relation "measure (\<lambda>(x, i). length x - i)")
  have ge: "i_ahead \<le> plateau_end x i i_ahead" for x i i_ahead
  proof (induction x i i_ahead rule: plateau_end.induct)
    case (1 x i i_ahead)
    show ?case
    proof (cases "i_ahead + 1 < length x \<and> np_eq (x ! i_ahead) (x ! i)")
      case True
      then have "i_ahead + 1 \<le> plateau_end x i (i_ahead + 1)" using "1.IH" by simp
      then show ?thesis using True by (subst plateau_end.simps) simp
    next
      case False
      then show ?thesis by (subst plateau_end.simps) auto
    qed
  qed
  show "wf (measure (\<lambda>(x, i). length x - i))" by simp
  show "((x, plateau_end x i (i + 1) + 1), (x, i)) \<in> measure (\<lambda>(x, i). length x - i)"
    if "i + 1 < length x" for x :: "npfloat list" and i
    using ge [of "i + 1" x i] that by simp
  show "((x, i + 1), (x, i)) \<in> measure (\<lambda>(x, i). length x - i)"
    if "i + 1 < length x" for x :: "npfloat list" and i
    using that by simp
  show "((x, i + 1), (x, i)) \<in> measure (\<lambda>(x, i). length x - i)"
    if "i + 1 < length x" for x :: "npfloat list" and i
    using that by simp
qed

declare local_maxima_from.simps [simp del]

definition local_maxima_1d :: "npfloat list \<Rightarrow> nat list" where
  "local_maxima_1d x = local_maxima_from x 1"

definition find_peaks :: "npfloat list \<Rightarrow> real \<Rightarrow> nat list" where
  "find_peaks x height = filter (\<lambda>p. np_le (Finite height) (x ! p)) (local_maxima_1d x)"

definition get_leading_edge_positions :: "npfloat list \<Rightarrow> real \<Rightarrow> nat list" where
  "get_leading_edge_positions intensity_profile_derivative treshold =
     find_peaks intensity_profile_derivative treshold"

definition get_trailing_edge_positions :: "npfloat list \<Rightarrow> real \<Rightarrow> nat list" where
  "get_trailing_edge_positions intensity_profile_derivative treshold =
     find_peaks (map np_neg intensity_profile_derivative) treshold"

section \<open>Translation and rotation\<close>

text \<open>A list comprehension whose elements may raise: the first exception wins.\<close>

fun collect :: "(error + 'a) list \<Rightarrow> error + 'a list" where
  "collect [] = Inr []"
| "collect (Inl e # rest) = Inl e"
| "collect (Inr v # rest) = (case collect rest of Inl e \<Rightarrow> Inl e | Inr vs \<Rightarrow> Inr (v # vs))"

text \<open>
  One element of the comprehension of \<open>get_translation\<close>:
  \<^verbatim>\<open>(((le[(i + 1) * 2] - te[i * 2 + 1]) - (le[i * 2 + 1] - te[i * 2])) * scale)/2\<close>.
\<close>

definition translation_at :: "int list \<Rightarrow> int list \<Rightarrow> real \<Rightarrow> int \<Rightarrow> error + real" where
  "translation_at le te scale i =
     (case py_index le ((i + 1) * 2) of Inl e \<Rightarrow> Inl e | Inr a \<Rightarrow>
      (case py_index te (i * 2 + 1) of Inl e \<Rightarrow> Inl e | Inr b \<Rightarrow>
       (case py_index le (i * 2 + 1) of Inl e \<Rightarrow> Inl e | Inr c \<Rightarrow>
        (case py_index te (i * 2) of Inl e \<Rightarrow> Inl e | Inr d \<Rightarrow>
           Inr ((real_of_int ((a - b) - (c - d)) * scale) / 2)))))"

text \<open>The value of that element when its four indices are in range.\<close>

definition translation_value :: "int list \<Rightarrow> int list \<Rightarrow> real \<Rightarrow> int \<Rightarrow> real" where
  "translation_value le te scale i =
     (real_of_int ((le ! nat ((i + 1) * 2) - te ! nat (i * 2 + 1))
                    - (le ! nat (i * 2 + 1) - te ! nat (i * 2))) * scale) / 2"

text \<open>
  \<open>get_translation\<close>: the derivative is taken with the default scale factor 5 and
  smoothed with the default order 3 and cut-off 0.1; the edges use the default threshold
  0.1; \<^verbatim>\<open>n = int(len(le)/2)-1\<close> and the comprehension runs over \<^verbatim>\<open>range(n)\<close>.
\<close>

definition get_translation :: "butter_filter \<Rightarrow> npfloat list \<Rightarrow> real \<Rightarrow> error + (real list \<times> npfloat)" where
  "get_translation butter_filtfilt intensity_profile scale =
     (case filter_data butter_filtfilt (get_intensity_profile_dy intensity_profile 5) 3 (1/10) of
        Inl e \<Rightarrow> Inl e
      | Inr dy \<Rightarrow>
          (let le = map int (get_leading_edge_positions dy (1/10));
               te = map int (get_trailing_edge_positions dy (1/10));
               n = int (length le) div 2 - 1
           in case collect (map (translation_at le te scale) (py_range 0 n)) of
                Inl e \<Rightarrow> Inl e
              | Inr T \<Rightarrow> Inr (T, np_std (map Finite T))))"








section \<open>Line widths\<close>

text \<open>
  An elementwise operation of two one-dimensional arrays: numpy stretches an array of
  length 1 to the length of the other one, and raises ValueError when the lengths differ
  otherwise.
\<close>

definition np_broadcast2 :: "(npfloat \<Rightarrow> npfloat \<Rightarrow> npfloat) \<Rightarrow> npfloat list \<Rightarrow> npfloat list \<Rightarrow> error + npfloat list" where
  "np_broadcast2 f xs ys =
     (if length xs = length ys then Inr (map2 f xs ys)
      else if length xs = 1 then Inr (map (f (hd xs)) ys)
      else if length ys = 1 then Inr (map (\<lambda>x. f x (hd ys)) xs)
      else Inl ValueError)"

text \<open>
  One element of \<^verbatim>\<open>LW_differences\<close>:
  \<^verbatim>\<open>np.sqrt(sum(np.maximum(data_slice - filter_data(get_intensity_profile(img_slice, row), 1, 0.1)**2, 0))) * scale\<close>.
\<close>

definition lw_difference :: "butter_filter \<Rightarrow> image \<Rightarrow> npfloat list \<Rightarrow> real \<Rightarrow> int \<Rightarrow> error + npfloat" where
  "lw_difference butter_filtfilt img_slice data_slice scale row =
     (case get_intensity_profile img_slice row True of Inl e \<Rightarrow> Inl e | Inr p \<Rightarrow>
      (case filter_data butter_filtfilt p 1 (1/10) of Inl e \<Rightarrow> Inl e | Inr f \<Rightarrow>
       (case np_broadcast2 np_sub data_slice (map (\<lambda>v. np_mul v v) f) of Inl e \<Rightarrow> Inl e | Inr d \<Rightarrow>
          Inr (np_mul (np_sqrt (py_sum (map (\<lambda>v. np_maximum v (Finite 0)) d))) (Finite scale)))))"

text \<open>The standard deviation of one line, with the margin of 10 pixels on both sides.\<close>

definition line_std :: "butter_filter \<Rightarrow> image \<Rightarrow> npfloat list \<Rightarrow> real \<Rightarrow> int \<Rightarrow> int \<Rightarrow> error + npfloat" where
  "line_std butter_filtfilt img mean_intensity_profile scale peak valley =
     (let margin = 10;
          img_slice = slice_cols img (peak - margin) (valley + margin);
          data_slice = py_slice mean_intensity_profile (peak - margin) (valley + margin);
          y = nrows img_slice
      in case collect (map (lw_difference butter_filtfilt img_slice data_slice scale)
                           (py_range 0 (int y))) of
           Inl e \<Rightarrow> Inl e
         | Inr LW_differences \<Rightarrow> Inr (np_std LW_differences))"

text \<open>
  The loop \<^verbatim>\<open>for peak, valley in zip(leading_edges, trailing_edges)\<close>, which appends one
  width and one standard deviation per pair. The \<^verbatim>\<open>debug\<close> flag only prints and is left
  out.
\<close>

fun line_width_loop :: "butter_filter \<Rightarrow> image \<Rightarrow> npfloat list \<Rightarrow> real \<Rightarrow> (int \<times> int) list \<Rightarrow> error + (real list \<times> npfloat list)" where
  "line_width_loop butter_filtfilt img prof scale [] = Inr ([], [])"
| "line_width_loop butter_filtfilt img prof scale ((peak, valley) # rest) =
     (let line_width = real_of_int (valley - peak) * scale
      in case line_std butter_filtfilt img prof scale peak valley of
           Inl e \<Rightarrow> Inl e
         | Inr std \<Rightarrow>
             (case line_width_loop butter_filtfilt img prof scale rest of
                Inl e \<Rightarrow> Inl e
              | Inr (line_widths, line_stds) \<Rightarrow> Inr (line_width # line_widths, std # line_stds)))"

definition get_line_width_data :: "butter_filter \<Rightarrow> image \<Rightarrow> npfloat list \<Rightarrow> int list \<Rightarrow> int list \<Rightarrow> real \<Rightarrow> error + (real list \<times> npfloat list)" where
  "get_line_width_data butter_filtfilt img mean_intensity_profile leading_edges trailing_edges scale =
     line_width_loop butter_filtfilt img mean_intensity_profile scale (zip leading_edges trailing_edges)"

section \<open>Scale and cropping\<close>

text \<open>
  The collaborators of \<open>get_scale\<close> are parameters: the text reader
  (\<^verbatim>\<open>easyocr\<close>'s \<^verbatim>\<open>readtext\<close> with \<^verbatim>\<open>detail = 0\<close>, a list of strings), Python's \<^verbatim>\<open>int\<close> on a
  string (\<open>None\<close> where it raises ValueError), and the line detector (\<^verbatim>\<open>cv2.Canny\<close> followed
  by \<^verbatim>\<open>cv2.HoughLinesP\<close>: \<open>None\<close> when no line is found, else the segments
  \<open>(x1, y1, x2, y2)\<close>).
\<close>

type_synonym text_reader = "image \<Rightarrow> string list"
type_synonym int_parser = "string \<Rightarrow> int option"
type_synonym line_detector = "image \<Rightarrow> (int \<times> int \<times> int \<times> int) list option"

definition get_str_from_img :: "text_reader \<Rightarrow> image \<Rightarrow> string list" where
  "get_str_from_img readtext img = readtext img"

text \<open>
  \<^verbatim>\<open>int(lines[0][0][2] - lines[0][0][0]) - 6\<close> on the region \<^verbatim>\<open>image[0:125, 200:1250]\<close>;
  indexing \<open>None\<close> raises TypeError.
\<close>

definition bar_region :: "image \<Rightarrow> image" where
  "bar_region img = slice2 img 0 125 200 1250"

definition get_scale_bar_size :: "line_detector \<Rightarrow> image \<Rightarrow> error + int" where
  "get_scale_bar_size hough_lines img =
     (let scale_img = bar_region img
      in case hough_lines scale_img of
           None \<Rightarrow> Inl TypeError
         | Some [] \<Rightarrow> Inl IndexError
         | Some ((x1, y1, x2, y2) # more) \<Rightarrow> Inr ((x2 - x1) - 6))"

text \<open>Python's division of two integers raises on a zero divisor.\<close>

definition py_truediv :: "int \<Rightarrow> int \<Rightarrow> error + real" where
  "py_truediv a b = (if b = 0 then Inl ZeroDivisionError else Inr (real_of_int a / real_of_int b))"

datatype scale_result =
    ScaleOnly real
  | ScalePm real real
  | ScaleAll string int real

text \<open>
  The two regions that \<open>get_scale\<close> cuts out:
  \<^verbatim>\<open>infobar = image[image.shape[0] - 95:image.shape[0], 0:image.shape[1]]\<close> and
  \<^verbatim>\<open>scale_img = infobar[0:infobar.shape[0], 0:95]\<close>.
\<close>

definition infobar_of :: "image \<Rightarrow> image" where
  "infobar_of img = slice2 img (int (nrows img) - 95) (int (nrows img)) 0 (int (ncols img))"

definition label_region :: "image \<Rightarrow> image" where
  "label_region infobar = slice2 infobar 0 (int (nrows infobar)) 0 95"

definition get_scale :: "text_reader \<Rightarrow> int_parser \<Rightarrow> line_detector \<Rightarrow> image \<Rightarrow> bool \<Rightarrow> bool \<Rightarrow> error + scale_result" where
  "get_scale readtext py_int hough_lines img return_all return_pm =
     (let infobar = infobar_of img;
          scale_img = label_region infobar
      in case get_str_from_img readtext scale_img of
           [] \<Rightarrow> Inl IndexError
         | scale_str # others \<Rightarrow>
             (case py_int scale_str of
                None \<Rightarrow> Inl ValueError
              | Some scale_int \<Rightarrow>
                  (case get_scale_bar_size hough_lines infobar of Inl e \<Rightarrow> Inl e | Inr size1 \<Rightarrow>
                   (case py_truediv scale_int size1 of Inl e \<Rightarrow> Inl e | Inr scale \<Rightarrow>
                    (case get_scale_bar_size hough_lines infobar of Inl e \<Rightarrow> Inl e | Inr size2 \<Rightarrow>
                     (case py_truediv scale_int (size2 - 1) of Inl e \<Rightarrow> Inl e | Inr q \<Rightarrow>
                        (let pm = q - scale
                         in if return_all then Inr (ScaleAll scale_str scale_int scale)
                            else if return_pm then Inr (ScalePm scale pm)
                            else Inr (ScaleOnly scale))))))))"

text \<open>
  \<open>crop_image\<close> unpacks \<^verbatim>\<open>width, height = image.shape\<close>, so \<open>width\<close> is the number of rows
  and \<open>height\<close> the number of columns, and returns
  \<^verbatim>\<open>image[top_margin:height-bottom_margin, left_margin:width-right_margin]\<close>.
\<close>

definition crop_image :: "image \<Rightarrow> int \<Rightarrow> int \<Rightarrow> int \<Rightarrow> int \<Rightarrow> image" where
  "crop_image img top_margin bottom_margin left_margin right_margin =
     (let width = int (nrows img); height = int (ncols img)
      in slice2 img top_margin (height - bottom_margin) left_margin (width - right_margin))"

text \<open>
  What the documentation of \<open>crop_image\<close> asks for, in its own words: scrap the given
  number of pixels from the top, the bottom, the left and the right.
\<close>

definition crop_exact :: "image \<Rightarrow> nat \<Rightarrow> nat \<Rightarrow> nat \<Rightarrow> nat \<Rightarrow> image" where
  "crop_exact img t b l r =
     map (\<lambda>row. take (length row - l - r) (drop l row)) (take (length img - t - b) (drop t img))"

section \<open>Properties of the profile extraction\<close>

lemma fold_min_le: "fold min xs (a::real) \<le> a"
proof (induction xs arbitrary: a)
  case Nil
  then show ?case by simp
next
  case (Cons y ys)
  have "fold min ys (min y a) \<le> min y a" by (rule Cons.IH)
  then show ?case by simp
qed

lemma fold_min_le_mem: "(x::real) \<in> set xs \<Longrightarrow> fold min xs a \<le> x"
proof (induction xs arbitrary: a)
  case Nil
  then show ?case by simp
next
  case (Cons y ys)
  show ?case
  proof (cases "x = y")
    case True
    have "fold min ys (min y a) \<le> min y a" by (rule fold_min_le)
    then show ?thesis using True by simp
  next
    case False
    then have "x \<in> set ys" using Cons.prems by simp
    then show ?thesis using Cons.IH by simp
  qed
qed

lemma fold_max_ge: "(a::real) \<le> fold max xs a"
proof (induction xs arbitrary: a)
  case Nil
  then show ?case by simp
next
  case (Cons y ys)
  have "max y a \<le> fold max ys (max y a)" by (rule Cons.IH)
  then show ?case by simp
qed

lemma fold_max_ge_mem: "(x::real) \<in> set xs \<Longrightarrow> x \<le> fold max xs a"
proof (induction xs arbitrary: a)
  case Nil
  then show ?case by simp
next
  case (Cons y ys)
  show ?case
  proof (cases "x = y")
    case True
    have "max y a \<le> fold max ys (max y a)" by (rule fold_max_ge)
    then show ?thesis using True by simp
  next
    case False
    then have "x \<in> set ys" using Cons.prems by simp
    then show ?thesis using Cons.IH by simp
  qed
qed

lemma py_min_le: "x \<in> set xs \<Longrightarrow> py_min xs \<le> x"
  by (cases xs) (auto simp: fold_min_le fold_min_le_mem)

lemma py_max_ge: "x \<in> set xs \<Longrightarrow> x \<le> py_max xs"
  by (cases xs) (auto simp: fold_max_ge fold_max_ge_mem)

lemma py_min_lt_max:
  assumes "x \<in> set xs" "y \<in> set xs" "x \<noteq> y"
  shows "py_min xs < py_max xs"
proof -
  have "py_min xs \<le> min x y" using assms py_min_le by simp
  moreover have "max x y \<le> py_max xs" using assms py_max_ge by simp
  moreover have "min x y < max x y" using assms(3) by auto
  ultimately show ?thesis by linarith
qed

lemma fold_min_const: "\<forall>x\<in>set xs. x = (c::real) \<Longrightarrow> fold min xs c = c"
  by (induction xs) auto

lemma fold_max_const: "\<forall>x\<in>set xs. x = (c::real) \<Longrightarrow> fold max xs c = c"
  by (induction xs) auto

lemma py_min_max_const:
  assumes "xs \<noteq> []" "\<forall>x\<in>set xs. x = c"
  shows "py_min xs = c \<and> py_max xs = c"
  using assms by (cases xs) (auto simp: fold_min_const fold_max_const)

lemma normalize_constant:
  assumes "r \<noteq> []" "\<forall>x\<in>set r. x = c"
  shows "normalize_1D_array r = Inr (replicate (length r) NaN)"
proof -
  have "py_min r = c \<and> py_max r = c" using assms by (rule py_min_max_const)
  then show ?thesis using assms(1) by (simp add: normalize_1D_array_def map_replicate_const)
qed

lemma normalize_nonconstant:
  assumes "x \<in> set r" "y \<in> set r" "x \<noteq> y"
  shows "normalize_1D_array r
           = Inr (map (\<lambda>v. Finite ((v - py_min r) / (py_max r - py_min r))) r)"
proof -
  have "py_min r < py_max r" using assms by (rule py_min_lt_max)
  moreover have "r \<noteq> []" using assms(1) by auto
  ultimately show ?thesis by (simp add: normalize_1D_array_def Let_def)
qed

lemma np_sub_NaN: "np_sub a NaN = NaN"
  by (cases a) (simp_all add: np_sub_def)

subsection \<open>Constant rows\<close>

text \<open>
  Claim C5 says that a constant row makes \<open>get_intensity_profile\<close> raise
  DegenerateProfileError. The code has no such check: on a non-empty row whose pixels
  all have one value, with or without inversion, it raises nothing and returns a profile
  of the row's length in which every element is NaN.
\<close>

theorem constant_row_profile_is_nan:
  assumes "py_index img row = Inr r" and "r \<noteq> []" and "\<forall>x\<in>set r. x = c"
  shows "get_intensity_profile img row invert_profile = Inr (replicate (length r) NaN)"
  using assms(1) normalize_constant [OF assms(2,3)]
  by (simp add: get_intensity_profile_def np_sub_NaN)

text \<open>The second row of a two-row image, constant at 4.\<close>

theorem constant_row_profile_is_nan_witness:
  "py_index [[3, 3], [4, 4::real]] 1 = Inr [4, 4] \<and> [4, 4] \<noteq> ([]::real list)
   \<and> set [4, 4] = {4::real}
   \<and> get_intensity_profile [[3, 3], [4, 4]] 1 True = Inr (replicate (length [4, 4::real]) NaN)"
proof -
  have a: "py_index [[3, 3], [4, 4::real]] 1 = Inr [4, 4]" by (simp add: py_index_def)
  have b: "[4, 4] \<noteq> ([]::real list)" by simp
  have c: "\<forall>x\<in>set [4, 4]. x = (4::real)" by simp
  show ?thesis using a b c constant_row_profile_is_nan [OF a b c, of True] by simp
qed

text \<open>
  Against C5 as stated: the one-row image \<open>[[7, 7, 7]]\<close> has a constant row 0, and the
  call returns an array of three NaN instead of raising.
\<close>

theorem constant_row_no_error_counterexample:
  "get_intensity_profile [[7, 7, 7]] 0 True = Inr [NaN, NaN, NaN]"
  by (simp add: get_intensity_profile_def py_index_def normalize_1D_array_def np_sub_def)

subsection \<open>Inversion\<close>

text \<open>
  Claim C8: for every image and every row whose values are not all equal, the inverted
  profile is the pointwise complement of the profile that is not inverted: both calls
  return an array of the row's length, and their elementwise sum is 1 at every index.
\<close>

theorem inverted_profile_is_complement:
  assumes "py_index img row = Inr r" and "x \<in> set r" and "y \<in> set r" and "x \<noteq> y"
  shows "\<exists>a b. get_intensity_profile img row True = Inr a
             \<and> get_intensity_profile img row False = Inr b
             \<and> length a = length r \<and> length b = length r
             \<and> (\<forall>i<length r. np_add (a ! i) (b ! i) = Finite 1)"
proof -
  let ?b = "map (\<lambda>v. Finite ((v - py_min r) / (py_max r - py_min r))) r"
  let ?a = "map (np_sub (Finite 1)) ?b"
  have n: "normalize_1D_array r = Inr ?b"
    using assms(2,3,4) by (rule normalize_nonconstant)
  have 1: "get_intensity_profile img row True = Inr ?a"
    using assms(1) n by (simp add: get_intensity_profile_def)
  have 2: "get_intensity_profile img row False = Inr ?b"
    using assms(1) n by (simp add: get_intensity_profile_def)
  have 3: "length ?a = length r" "length ?b = length r" by simp_all
  have 4: "\<forall>i<length r. np_add (?a ! i) (?b ! i) = Finite 1"
    by (simp add: np_add_def np_sub_def)
  show ?thesis
    by (rule exI [of _ ?a], rule exI [of _ ?b]) (intro conjI 1 2 3 4)
qed

theorem inverted_profile_is_complement_witness:
  "py_index [[0, 1, 2::real]] 0 = Inr [0, 1, 2] \<and> (0::real) \<in> set [0, 1, 2] \<and> (1::real) \<in> set [0, 1, 2]
   \<and> (0::real) \<noteq> 1
   \<and> (\<exists>a b. get_intensity_profile [[0, 1, 2]] 0 True = Inr a
             \<and> get_intensity_profile [[0, 1, 2]] 0 False = Inr b
             \<and> length a = length [0, 1, 2::real] \<and> length b = length [0, 1, 2::real]
             \<and> (\<forall>i<length [0, 1, 2::real]. np_add (a ! i) (b ! i) = Finite 1))"
proof -
  have a: "py_index [[0, 1, 2::real]] 0 = Inr [0, 1, 2]" by (simp add: py_index_def)
  have b: "(0::real) \<in> set [0, 1, 2]" by simp
  have c: "(1::real) \<in> set [0, 1, 2]" by simp
  have d: "(0::real) \<noteq> 1" by simp
  note e = inverted_profile_is_complement [OF a b c d]
  show ?thesis
    apply (rule conjI [OF a])
    apply (rule conjI [OF b])
    apply (rule conjI [OF c])
    apply (rule conjI [OF d])
    apply (rule e)
    done
qed

section \<open>Properties of the edge detection\<close>

lemma length_filter_mono:
  "(\<And>x. P x \<Longrightarrow> Q x) \<Longrightarrow> length (filter P xs) \<le> length (filter Q xs)"
  by (induction xs) auto

lemma np_le_threshold_mono: "t1 \<le> t2 \<Longrightarrow> np_le (Finite t2) v \<Longrightarrow> np_le (Finite t1) v"
  by (cases v) auto

lemma find_peaks_mono:
  "t1 \<le> t2 \<Longrightarrow> length (find_peaks x t2) \<le> length (find_peaks x t1)"
  unfolding find_peaks_def by (rule length_filter_mono) (rule np_le_threshold_mono)

text \<open>
  Claim C9: for every derivative profile and thresholds \<open>t1 \<le> t2\<close>, the number of
  leading edges found at \<open>t2\<close> is at most the number found at \<open>t1\<close>, and likewise for
  the trailing edges.
\<close>

theorem edge_count_antitone_in_threshold:
  assumes "t1 \<le> t2"
  shows "length (get_leading_edge_positions dy t2) \<le> length (get_leading_edge_positions dy t1)
       \<and> length (get_trailing_edge_positions dy t2) \<le> length (get_trailing_edge_positions dy t1)"
  using assms
  by (simp add: get_leading_edge_positions_def get_trailing_edge_positions_def find_peaks_mono)

theorem edge_count_antitone_in_threshold_witness:
  "(1/10 :: real) \<le> 3
   \<and> length (get_leading_edge_positions (map Finite [0, 5, 0, 2, 0, 5, 0]) 3)
        \<le> length (get_leading_edge_positions (map Finite [0, 5, 0, 2, 0, 5, 0]) (1/10))
   \<and> length (get_trailing_edge_positions (map Finite [0, 5, 0, 2, 0, 5, 0]) 3)
        \<le> length (get_trailing_edge_positions (map Finite [0, 5, 0, 2, 0, 5, 0]) (1/10))"
proof -
  have h: "(1/10 :: real) \<le> 3" by simp
  show ?thesis
    using h edge_count_antitone_in_threshold [OF h, of "map Finite [0, 5, 0, 2, 0, 5, 0]"]
    by blast
qed

section \<open>Properties of the line widths\<close>







text \<open>
  Claim C2 says that sequences of different lengths make \<open>get_line_width_data\<close> fail
  with EdgeCountMismatchError. The code has no such check: it iterates over
  \<^verbatim>\<open>zip(leading_edges, trailing_edges)\<close>, which stops at the shorter sequence. Its result,
  value or exception, is therefore the result on both sequences cut to the shorter length.
\<close>

theorem line_widths_truncate_to_shorter:
  "get_line_width_data filt img prof leading_edges trailing_edges scale
     = get_line_width_data filt img prof
         (take (min (length leading_edges) (length trailing_edges)) leading_edges)
         (take (min (length leading_edges) (length trailing_edges)) trailing_edges) scale"
proof -
  have "zip leading_edges trailing_edges
          = zip (take (min (length leading_edges) (length trailing_edges)) leading_edges)
                (take (min (length leading_edges) (length trailing_edges)) trailing_edges)"
    by (simp add: take_zip [symmetric])
  then show ?thesis by (simp add: get_line_width_data_def)
qed

text \<open>
  Against C2 as stated: with no leading edge and one trailing edge the lengths differ,
  the loop body never runs, and the call returns two empty lists.
\<close>

theorem line_widths_mismatch_counterexample:
  "length ([]::int list) \<noteq> length [25::int]
   \<and> get_line_width_data (\<lambda>order cutoff data. Inr data) [[0, 1, 2]]
        [Finite 0, Finite (1/2), Finite 1] [] [25] 2 = Inr ([], [])"
  by (simp add: get_line_width_data_def)

section \<open>Properties of the scale\<close>

text \<open>
  Claim C1 says that \<open>get_scale\<close> with \<^verbatim>\<open>return_pm=True\<close> returns the scale
  \<open>label_value / L\<close> and the uncertainty \<open>label_value / (L - 1) - scale\<close> for every span
  \<open>S\<close> that the line detector reports, with \<open>L = S - 6\<close>. Both quotients are divisions of
  Python integers, which raise ZeroDivisionError on a zero divisor. So, when the text
  reader returns at least one string, the first one parses to \<open>label_value\<close>, and the
  first detected segment runs from \<open>x1\<close> to \<open>x2\<close>: the call raises ZeroDivisionError when
  \<open>L\<close> is 0 or 1, and returns the scale and the uncertainty of the claim otherwise.
\<close>

theorem get_scale_with_pm:
  assumes "get_str_from_img readtext (label_region (infobar_of img)) = scale_str # others"
    and "py_int scale_str = Some label_value"
    and "hough_lines (bar_region (infobar_of img)) = Some ((x1, y1, x2, y2) # more)"
    and "L = (x2 - x1) - 6"
  shows "get_scale readtext py_int hough_lines img False True
           = (if L = 0 \<or> L = 1 then Inl ZeroDivisionError
              else Inr (ScalePm (real_of_int label_value / real_of_int L)
                          (real_of_int label_value / real_of_int (L - 1)
                             - real_of_int label_value / real_of_int L)))"
  using assms
  by (simp add: get_scale_def get_scale_bar_size_def py_truediv_def Let_def)

text \<open>
  The label 100 over a detected span of 206 pixels, \<open>L = 200\<close>; and over a span of 7
  pixels, \<open>L = 1\<close>.
\<close>

theorem get_scale_with_pm_witness:
  "get_scale (\<lambda>i. [''100'']) (\<lambda>s. if s = ''100'' then Some 100 else None)
       (\<lambda>i. Some [(10, 50, 216, 50)]) [[0, 0], [0, 0]] False True
     = Inr (ScalePm (1 / 2) (100 / 199 - 1 / 2))
   \<and> get_scale (\<lambda>i. [''100'']) (\<lambda>s. if s = ''100'' then Some 100 else None)
       (\<lambda>i. Some [(10, 50, 17, 50)]) [[0, 0], [0, 0]] False True
     = Inl ZeroDivisionError"
proof -
  have a: "get_scale (\<lambda>i. [''100'']) (\<lambda>s. if s = ''100'' then Some 100 else None)
       (\<lambda>i. Some [(10, 50, 216, 50)]) [[0, 0], [0, 0]] False True
     = Inr (ScalePm (1 / 2) (100 / 199 - 1 / 2))"
    using get_scale_with_pm [of "\<lambda>i. [''100'']" "[[0, 0], [0, 0]]" "''100''" "[]"
        "\<lambda>s. if s = ''100'' then Some 100 else None" 100 "\<lambda>i. Some [(10, 50, 216, 50)]"
        10 50 216 50 "[]" 200]
    by (simp add: get_str_from_img_def)
  have b: "get_scale (\<lambda>i. [''100'']) (\<lambda>s. if s = ''100'' then Some 100 else None)
       (\<lambda>i. Some [(10, 50, 17, 50)]) [[0, 0], [0, 0]] False True
     = Inl ZeroDivisionError"
    using get_scale_with_pm [of "\<lambda>i. [''100'']" "[[0, 0], [0, 0]]" "''100''" "[]"
        "\<lambda>s. if s = ''100'' then Some 100 else None" 100 "\<lambda>i. Some [(10, 50, 17, 50)]"
        10 50 17 50 "[]" 1]
    by (simp add: get_str_from_img_def)
  show ?thesis using a b by (rule conjI)
qed

text \<open>
  Against C1 as stated: when the detected segment spans 6 pixels, \<open>L\<close> is 0 and the call
  raises ZeroDivisionError instead of returning a scale.
\<close>

theorem get_scale_zero_length_bar_counterexample:
  "get_scale (\<lambda>i. [''100'']) (\<lambda>s. if s = ''100'' then Some 100 else None)
       (\<lambda>i. Some [(10, 50, 16, 50)]) [[0, 0], [0, 0]] False True
     = Inl ZeroDivisionError"
  by (simp add: get_scale_def get_str_from_img_def get_scale_bar_size_def py_truediv_def Let_def)

section \<open>Properties of the translation\<close>

lemma collect_map_Inr:
  "(\<And>x. x \<in> set xs \<Longrightarrow> f x = Inr (g x)) \<Longrightarrow> collect (map f xs) = Inr (map g xs)"
  by (induction xs) simp_all

lemma collect_map_Inl:
  "collect (map f xs) = Inl e \<Longrightarrow> \<exists>x\<in>set xs. f x = Inl e"
proof (induction xs)
  case Nil
  then show ?case by simp
next
  case (Cons x xs)
  then show ?case by (cases "f x") (auto split: sum.splits)
qed

lemma collect_map_all_Inr:
  "collect (map f xs) = Inr ys \<Longrightarrow> \<forall>x\<in>set xs. \<exists>y. f x = Inr y"
proof (induction xs arbitrary: ys)
  case Nil
  then show ?case by simp
next
  case (Cons x xs)
  then show ?case by (cases "f x") (auto split: sum.splits)
qed

lemma py_index_inside: "0 \<le> i \<Longrightarrow> i < int (length xs) \<Longrightarrow> py_index xs i = Inr (xs ! nat i)"
  by (simp add: py_index_def)

lemma py_index_beyond: "int (length xs) \<le> i \<Longrightarrow> py_index xs i = Inl IndexError"
  by (simp add: py_index_def)

lemma py_index_error: "py_index xs i = Inl e \<Longrightarrow> e = IndexError"
  by (auto simp: py_index_def Let_def split: if_splits)

lemma translation_at_error: "translation_at le te scale i = Inl e \<Longrightarrow> e = IndexError"
  by (auto simp: translation_at_def split: sum.splits dest: py_index_error)

lemma py_range_0: "set (py_range 0 n) = {i. 0 \<le> i \<and> i < n}"
proof -
  have "set (py_range 0 n) = int ` {0..<nat n}" by (simp add: py_range_def image_image)
  also have "\<dots> = {i. 0 \<le> i \<and> i < n}"
  proof (intro equalityI subsetI)
    fix i assume "i \<in> int ` {0..<nat n}"
    then show "i \<in> {i. 0 \<le> i \<and> i < n}" by auto
  next
    fix i assume "i \<in> {i. 0 \<le> i \<and> i < n}"
    then have "nat i \<in> {0..<nat n}" "i = int (nat i)" by auto
    then show "i \<in> int ` {0..<nat n}" by (rule_tac image_eqI)
  qed
  finally show ?thesis .
qed

lemma py_range_0_length: "length (py_range 0 n) = nat n"
  by (simp add: py_range_def)

lemma py_range_0_nth: "i < nat n \<Longrightarrow> py_range 0 n ! i = int i"
  by (simp add: py_range_def)

lemma translation_at_inside:
  assumes "0 \<le> i" "i < n" "n = int (length le) div 2 - 1" "2 * n \<le> int (length te)"
  shows "translation_at le te scale i = Inr (translation_value le te scale i)"
proof -
  have a: "(i + 1) * 2 < int (length le)" using assms(2,3) by presburger
  have b: "i * 2 + 1 < int (length te)" using assms(2,4) by presburger
  have c: "i * 2 + 1 < int (length le)" using a by presburger
  have d: "i * 2 < int (length te)" using b by presburger
  show ?thesis
    using assms(1) a b c d
    by (simp add: translation_at_def translation_value_def py_index_inside)
qed


lemma np_std_empty: "np_std [] = NaN"
  by (simp add: np_std_def np_mean_def)

lemma translation_at_trailing_beyond:
  assumes "0 \<le> i" "int (length te) \<le> i * 2 + 1"
  shows "translation_at le te scale i = Inl IndexError"
proof (cases "py_index le ((i + 1) * 2)")
  case (Inl e)
  then have "e = IndexError" by (rule py_index_error)
  then show ?thesis using Inl by (simp add: translation_at_def)
next
  case (Inr a)
  have "py_index te (i * 2 + 1) = Inl IndexError" using assms(2) by (rule py_index_beyond)
  then show ?thesis using Inr by (simp add: translation_at_def)
qed

text \<open>
  Claim C4 says that \<open>get_translation\<close> returns exactly \<open>n = floor(len(le)/2) - 1\<close>
  values. The loop runs over \<^verbatim>\<open>range(n)\<close>, which is empty for \<open>n \<le> 0\<close>, so the number of
  values is \<open>max(0, n)\<close>. With that count the claim holds: when the filter returns the
  smoothed derivative \<open>dy\<close>, with \<open>le\<close> and \<open>te\<close> the leading and trailing edges found on
  \<open>dy\<close>, and when the indices used are within both arrays (\<open>n \<le> 0\<close>, or \<open>te\<close> has at least
  \<open>2 n\<close> elements; \<open>le\<close> always has enough), the call returns the values
  \<open>T_i = ((le[2(i+1)] - te[2i+1]) - (le[2i+1] - te[2i])) * scale / 2\<close> for \<open>i < n\<close> together
  with their standard deviation.
\<close>

theorem translation_count_and_values:
  assumes "filter_data filt (get_intensity_profile_dy profile 5) 3 (1/10) = Inr dy"
    and "le = map int (get_leading_edge_positions dy (1/10))"
    and "te = map int (get_trailing_edge_positions dy (1/10))"
    and "n = int (length le) div 2 - 1"
    and "n \<le> 0 \<or> 2 * n \<le> int (length te)"
  shows "\<exists>T. get_translation filt profile scale = Inr (T, np_std (map Finite T))
           \<and> int (length T) = max 0 n
           \<and> (\<forall>i<length T. T ! i =
                 (real_of_int ((le ! ((i + 1) * 2) - te ! (i * 2 + 1))
                                - (le ! (i * 2 + 1) - te ! (i * 2))) * scale) / 2)"
proof -
  let ?T = "map (translation_value le te scale) (py_range 0 n)"
  have each: "translation_at le te scale i = Inr (translation_value le te scale i)"
    if "i \<in> set (py_range 0 n)" for i
  proof -
    from that have i: "0 \<le> i" "i < n" by (simp_all add: py_range_0)
    then have "2 * n \<le> int (length te)" using assms(5) by linarith
    then show ?thesis using i assms(4) by (simp add: translation_at_inside)
  qed
  have coll: "collect (map (translation_at le te scale) (py_range 0 n)) = Inr ?T"
    using each by (rule collect_map_Inr)
  have run: "get_translation filt profile scale = Inr (?T, np_std (map Finite ?T))"
    using assms(1) coll
    by (simp add: get_translation_def Let_def assms(2,3,4) [symmetric])
  have len: "int (length ?T) = max 0 n" by (simp add: py_range_0_length)
  have val: "\<forall>i<length ?T. ?T ! i =
                 (real_of_int ((le ! ((i + 1) * 2) - te ! (i * 2 + 1))
                                - (le ! (i * 2 + 1) - te ! (i * 2))) * scale) / 2"
    by (simp add: py_range_0_length py_range_0_nth translation_value_def nat_add_distrib nat_mult_distrib)
  show ?thesis by (rule exI [of _ ?T]) (intro conjI run len val)
qed

lemma eight_edges_leading:
  "map int (get_leading_edge_positions (get_intensity_profile_dy (map Finite
      [0, 1, 0, 0, 1, 0, 1, 0, 0, 0, 1, 0, 1, 0, 0, 1, 0, 1, 0, 1, 0, 0, 1, 0]) 5) (1/10))
     = [3, 5, 9, 11, 14, 16, 18, 21]"
  by code_simp

lemma eight_edges_trailing:
  "map int (get_trailing_edge_positions (get_intensity_profile_dy (map Finite
      [0, 1, 0, 0, 1, 0, 1, 0, 0, 0, 1, 0, 1, 0, 0, 1, 0, 1, 0, 1, 0, 0, 1, 0]) 5) (1/10))
     = [1, 4, 6, 10, 12, 15, 17, 19]"
  by code_simp

text \<open>
  A profile with exactly 8 edges of each kind: \<open>n = 3\<close>, and the three values are
  1, -1 and -1 at scale 2.
\<close>

theorem translation_count_and_values_witness:
  "get_translation (\<lambda>order cutoff data. Inr data) (map Finite
      [0, 1, 0, 0, 1, 0, 1, 0, 0, 0, 1, 0, 1, 0, 0, 1, 0, 1, 0, 1, 0, 0, 1, 0]) 2
     = Inr ([1, - 1, - 1], np_std (map Finite [1, - 1, - 1]))"
proof -
  let ?F = "\<lambda>(order::nat) (cutoff::real) (data::npfloat list). (Inr data :: error + npfloat list)"
  let ?P = "map Finite [0, 1, 0, 0, 1, 0, 1, 0, 0, 0, 1, 0, 1, 0, 0, 1, 0, 1, 0, 1, 0, 0, 1, 0]"
  let ?le = "[3, 5, 9, 11, 14, 16, 18, 21] :: int list"
  let ?te = "[1, 4, 6, 10, 12, 15, 17, 19] :: int list"
  have f: "filter_data ?F (get_intensity_profile_dy ?P 5) 3 (1/10)
             = Inr (get_intensity_profile_dy ?P 5)"
    by (simp add: filter_data_def)
  have n: "(3::int) = int (length ?le) div 2 - 1" by simp
  have ok: "(3::int) \<le> 0 \<or> 2 * 3 \<le> int (length ?te)" by simp
  obtain T where run: "get_translation ?F ?P 2 = Inr (T, np_std (map Finite T))"
    and len: "int (length T) = max 0 3"
    and val: "\<forall>i<length T. T ! i =
                 (real_of_int ((?le ! ((i + 1) * 2) - ?te ! (i * 2 + 1))
                                - (?le ! (i * 2 + 1) - ?te ! (i * 2))) * 2) / 2"
    using translation_count_and_values
      [OF f eight_edges_leading [symmetric] eight_edges_trailing [symmetric] n ok, of 2]
    by blast
  from len have l3: "length T = 3" by simp
  have t0: "T ! 0 = 1" using val [rule_format, of 0] l3 by simp
  have t1: "T ! 1 = - 1" using val [rule_format, of 1] l3 by simp
  have t2: "T ! 2 = - 1" using val [rule_format, of 2] l3 by simp
  have "T = [1, - 1, - 1]"
  proof (rule nth_equalityI)
    show "length T = length [1, - 1, - 1 :: real]" using l3 by simp
  next
    fix i assume "i < length T"
    then have "i = 0 \<or> i = 1 \<or> i = 2" using l3 by auto
    then show "T ! i = [1, - 1, - 1] ! i" using t0 t1 t2 by auto
  qed
  with run show ?thesis by simp
qed

lemma flat_no_leading:
  "get_leading_edge_positions (get_intensity_profile_dy (replicate 20 (Finite (1/2))) 5) (1/10) = []"
  by code_simp

lemma flat_no_trailing:
  "get_trailing_edge_positions (get_intensity_profile_dy (replicate 20 (Finite (1/2))) 5) (1/10) = []"
  by code_simp

text \<open>
  Against C4 as stated: a flat profile has the all-zero derivative, which a linear filter
  leaves unchanged, and no edge. Then \<open>n = -1\<close>, and the call returns the empty list: 0
  values, not \<open>n\<close>.
\<close>

theorem translation_count_counterexample:
  "get_translation (\<lambda>order cutoff data. Inr data) (replicate 20 (Finite (1/2))) 1 = Inr ([], NaN)
   \<and> int (length (get_leading_edge_positions
                     (get_intensity_profile_dy (replicate 20 (Finite (1/2))) 5) (1/10))) div 2 - 1
       = - 1"
  by (simp add: get_translation_def filter_data_def flat_no_leading flat_no_trailing
      py_range_def np_std_empty)

text \<open>
  Claim C6 says that fewer than 4 leading or fewer than 4 trailing edges make
  \<open>get_translation\<close> fail with InsufficientEdgesError. The code has no such check. With
  fewer than 4 leading edges \<open>n \<le> 0\<close>, the loop does not run, and the call returns the
  empty list with the standard deviation NaN, whatever the number of trailing edges.
  With at least 4 leading edges the number of trailing edges matters only through the
  indices: fewer than \<open>2 n\<close> of them raise IndexError.
\<close>

theorem too_few_edges_no_dedicated_error:
  assumes "filter_data filt (get_intensity_profile_dy profile 5) 3 (1/10) = Inr dy"
    and "le = map int (get_leading_edge_positions dy (1/10))"
    and "te = map int (get_trailing_edge_positions dy (1/10))"
    and "n = int (length le) div 2 - 1"
  shows "(length le < 4 \<longrightarrow> get_translation filt profile scale = Inr ([], NaN))
       \<and> (4 \<le> length le \<and> int (length te) < 2 * n
            \<longrightarrow> get_translation filt profile scale = Inl IndexError)"
proof (intro conjI impI)
  assume "length le < 4"
  then have "n \<le> 0" using assms(4) by presburger
  then have "py_range 0 n = []" by (simp add: py_range_def)
  then show "get_translation filt profile scale = Inr ([], NaN)"
    using assms(1)
    by (simp add: get_translation_def Let_def assms(2,3,4) [symmetric] np_std_empty)
next
  assume a: "4 \<le> length le \<and> int (length te) < 2 * n"
  then have n1: "1 \<le> n" using assms(4) by presburger
  have last: "translation_at le te scale (n - 1) = Inl IndexError"
    using n1 a by (intro translation_at_trailing_beyond) simp_all
  have mem: "n - 1 \<in> set (py_range 0 n)" using n1 by (simp add: py_range_0)
  have "collect (map (translation_at le te scale) (py_range 0 n)) = Inl IndexError"
  proof (cases "collect (map (translation_at le te scale) (py_range 0 n))")
    case (Inl e)
    then obtain i where "translation_at le te scale i = Inl e"
      using collect_map_Inl by blast
    then have "e = IndexError" by (rule translation_at_error)
    then show ?thesis using Inl by simp
  next
    case (Inr T)
    then have "\<exists>y. translation_at le te scale (n - 1) = Inr y"
      using collect_map_all_Inr mem by blast
    then show ?thesis using last by simp
  qed
  then show "get_translation filt profile scale = Inl IndexError"
    using assms(1)
    by (simp add: get_translation_def Let_def assms(2,3,4) [symmetric])
qed

lemma two_edges_leading:
  "map int (get_leading_edge_positions (get_intensity_profile_dy (map Finite
      [0, 1, 0, 1, 0, 1, 0]) 5) (1/10)) = [2, 4]"
  by code_simp

lemma stairs_leading:
  "map int (get_leading_edge_positions (get_intensity_profile_dy (map Finite
      [0, 0, 1, 1, 2, 2, 3, 3, 4, 4, 5, 5]) 5) (1/10)) = [1, 3, 5, 7, 9]"
  by code_simp

lemma stairs_trailing:
  "map int (get_trailing_edge_positions (get_intensity_profile_dy (map Finite
      [0, 0, 1, 1, 2, 2, 3, 3, 4, 4, 5, 5]) 5) (1/10)) = []"
  by code_simp

text \<open>
  Two leading edges give the empty result; five leading edges and no trailing edge give
  IndexError.
\<close>

theorem too_few_edges_no_dedicated_error_witness:
  "get_translation (\<lambda>order cutoff data. Inr data) (map Finite [0, 1, 0, 1, 0, 1, 0]) 2
     = Inr ([], NaN)
   \<and> get_translation (\<lambda>order cutoff data. Inr data)
        (map Finite [0, 0, 1, 1, 2, 2, 3, 3, 4, 4, 5, 5]) 2 = Inl IndexError"
proof -
  let ?F = "\<lambda>(order::nat) (cutoff::real) (data::npfloat list). (Inr data :: error + npfloat list)"
  let ?P = "map Finite [0, 1, 0, 1, 0, 1, 0]"
  let ?Q = "map Finite [0, 0, 1, 1, 2, 2, 3, 3, 4, 4, 5, 5]"
  have fp: "filter_data ?F (get_intensity_profile_dy ?P 5) 3 (1/10)
             = Inr (get_intensity_profile_dy ?P 5)"
    by (simp add: filter_data_def)
  have fq: "filter_data ?F (get_intensity_profile_dy ?Q 5) 3 (1/10)
             = Inr (get_intensity_profile_dy ?Q 5)"
    by (simp add: filter_data_def)
  have 1: "get_translation ?F ?P 2 = Inr ([], NaN)"
    using too_few_edges_no_dedicated_error [OF fp two_edges_leading [symmetric] refl refl, of 2]
    by simp
  have 2: "get_translation ?F ?Q 2 = Inl IndexError"
    using too_few_edges_no_dedicated_error
      [OF fq stairs_leading [symmetric] stairs_trailing [symmetric] refl, of 2]
    by simp
  show ?thesis using 1 2 by (rule conjI)
qed

lemma zero_profile_no_leading:
  "get_leading_edge_positions (get_intensity_profile_dy (replicate 16 (Finite 0)) 5) (1/10) = []"
  by code_simp

lemma zero_profile_no_trailing:
  "get_trailing_edge_positions (get_intensity_profile_dy (replicate 16 (Finite 0)) 5) (1/10) = []"
  by code_simp

text \<open>
  Against C6 as stated: the all-zero profile has no edge at all, and the call returns
  normally.
\<close>

theorem too_few_edges_counterexample:
  "length (get_leading_edge_positions (get_intensity_profile_dy (replicate 16 (Finite 0)) 5) (1/10)) < 4
   \<and> get_translation (\<lambda>order cutoff data. Inr data) (replicate 16 (Finite 0)) 3 = Inr ([], NaN)"
  by (simp add: get_translation_def filter_data_def zero_profile_no_leading zero_profile_no_trailing
      py_range_def np_std_empty)

section \<open>Properties of the cropping\<close>

lemma clamp_bound_range: "0 \<le> clamp_bound n a \<and> clamp_bound n a \<le> int n"
  by (simp add: clamp_bound_def)

lemma py_slice_clamp:
  "py_slice xs a e
     = take (nat (clamp_bound (length xs) e - clamp_bound (length xs) a))
            (drop (nat (clamp_bound (length xs) a)) xs)"
  by (simp add: py_slice_def clamp_bound_def Let_def)

lemma length_py_slice:
  "length (py_slice xs a e) = nat (clamp_bound (length xs) e - clamp_bound (length xs) a)"
proof -
  have r: "0 \<le> clamp_bound (length xs) a" "clamp_bound (length xs) a \<le> int (length xs)"
    "0 \<le> clamp_bound (length xs) e" "clamp_bound (length xs) e \<le> int (length xs)"
    using clamp_bound_range by simp_all
  have "length (py_slice xs a e)
          = min (nat (clamp_bound (length xs) e - clamp_bound (length xs) a))
                (length xs - nat (clamp_bound (length xs) a))"
    by (simp add: py_slice_clamp)
  also have "\<dots> = nat (clamp_bound (length xs) e - clamp_bound (length xs) a)"
    using r by linarith
  finally show ?thesis .
qed

lemma py_slice_margins:
  assumes "0 \<le> t" "0 \<le> b" "b \<le> int (length xs)"
  shows "py_slice xs t (int (length xs) - b) = take (length xs - nat t - nat b) (drop (nat t) xs)"
proof (cases "t \<le> int (length xs)")
  case True
  have e: "clamp_bound (length xs) (int (length xs) - b) = int (length xs) - b"
    using assms by (simp add: clamp_bound_def)
  have s: "clamp_bound (length xs) t = t" using assms True by (simp add: clamp_bound_def)
  have "nat (int (length xs) - b - t) = length xs - nat t - nat b" using assms by linarith
  then show ?thesis by (simp add: py_slice_clamp e s)
next
  case False
  then have "drop (nat t) xs = []" by simp
  moreover have "clamp_bound (length xs) t = int (length xs)"
    using assms False by (simp add: clamp_bound_def)
  ultimately show ?thesis by (simp add: py_slice_clamp)
qed

lemma rect_ncols: "rect R C img \<Longrightarrow> ncols img = C"
  by (cases img) (simp_all add: rect_def ncols_def)

lemma rect_nrows: "rect R C img \<Longrightarrow> nrows img = R"
  by (simp add: rect_def nrows_def)

lemma rect_row_length: "rect R C img \<Longrightarrow> row \<in> set img \<Longrightarrow> length row = C"
  by (simp add: rect_def list_all_iff)

lemma set_py_slice: "set (py_slice xs a e) \<subseteq> set xs"
proof
  fix x assume "x \<in> set (py_slice xs a e)"
  then have "x \<in> set (drop (nat (clamp_bound (length xs) a)) xs)"
    unfolding py_slice_clamp by (rule in_set_takeD)
  then show "x \<in> set xs" by (rule in_set_dropD)
qed


lemma swapped_bounds_arith:
  fixes R C :: nat and t b l r :: int
  assumes "0 \<le> t" "0 \<le> b" "b \<le> int R" "0 \<le> l" "0 \<le> r" "r \<le> int C"
    and "nat (clamp_bound R (int C - b) - clamp_bound R t) = R - nat t - nat b"
    and "0 < R - nat t - nat b"
    and "nat (clamp_bound C (int R - r) - clamp_bound C l) = C - nat l - nat r"
    and "0 < C - nat l - nat r"
  shows "R = C"
proof -
  have t: "clamp_bound R t = t" using assms(1,8) by (simp add: clamp_bound_def)
  have l: "clamp_bound C l = l" using assms(4,10) by (simp add: clamp_bound_def)
  have rows: "clamp_bound R (int C - b) - t = int R - t - b"
    using assms(1,2,7,8) unfolding t by linarith
  have cols: "clamp_bound C (int R - r) - l = int C - l - r"
    using assms(4,5,9,10) unfolding l by linarith
  show ?thesis
  proof (cases "R \<le> C")
    case True
    have "int C - b \<ge> 0" using True assms(3) by linarith
    then have "clamp_bound R (int C - b) = min (int C - b) (int R)" by (simp add: clamp_bound_def)
    then have "min (int C - b) (int R) = int R - b" using rows by linarith
    then have "b = 0 \<or> C = R" by linarith
    show ?thesis
    proof (cases "int R - r < 0")
      case neg: True
      then have "clamp_bound C (int R - r) = max (int R - r + int C) 0" by (simp add: clamp_bound_def)
      then have "max (int R - r + int C) 0 = int C - r" using cols by linarith
      then have "R = 0" using assms(4,10) by linarith
      then show ?thesis using assms(8) by simp
    next
      case False
      then have "clamp_bound C (int R - r) = min (int R - r) (int C)" by (simp add: clamp_bound_def)
      then have "min (int R - r) (int C) = int C - r" using cols by linarith
      then show ?thesis using True assms(5) by linarith
    qed
  next
    case False
    then have RC: "C < R" by simp
    have "int R - r \<ge> 0" using RC assms(6) by linarith
    then have "clamp_bound C (int R - r) = min (int R - r) (int C)" by (simp add: clamp_bound_def)
    then have "min (int R - r) (int C) = int C - r" using cols by linarith
    then have r0: "r = 0" using RC by linarith
    show ?thesis
    proof (cases "int C - b < 0")
      case neg: True
      then have "clamp_bound R (int C - b) = max (int C - b + int R) 0" by (simp add: clamp_bound_def)
      then have "max (int C - b + int R) 0 = int R - b" using rows by linarith
      then have "C = 0" using assms(1,8) by linarith
      then show ?thesis using assms(10) by simp
    next
      case False
      then have "clamp_bound R (int C - b) = min (int C - b) (int R)" by (simp add: clamp_bound_def)
      then have "min (int C - b) (int R) = int R - b" using rows by linarith
      then show ?thesis using RC by linarith
    qed
  qed
qed


lemma crop_image_slice:
  assumes "rect R C img"
  shows "crop_image img t b l r = slice2 img t (int C - b) l (int R - r)"
  using rect_ncols [OF assms] rect_nrows [OF assms] by (simp add: crop_image_def)

lemma length_crop_exact_rows:
  "length (crop_exact img t b l r) = length img - t - b"
  by (simp add: crop_exact_def)

lemma crop_exact_row_length:
  assumes "rect R C img" "row \<in> set (crop_exact img t b l r)"
  shows "length row = C - l - r"
proof -
  from assms(2) obtain row0 where r0: "row0 \<in> set (take (length img - t - b) (drop t img))"
    and row: "row = take (length row0 - l - r) (drop l row0)"
    by (auto simp: crop_exact_def)
  from r0 have "row0 \<in> set img" by (meson in_set_takeD in_set_dropD)
  then have "length row0 = C" using assms(1) by (rule rect_row_length [rotated])
  then show ?thesis using row by simp
qed

lemma slice2_row_length:
  assumes "rect R C img" "row \<in> set (slice2 img a b c d)"
  shows "length row = nat (clamp_bound C d - clamp_bound C c)"
proof -
  from assms(2) obtain row0 where r0: "row0 \<in> set (py_slice img a b)"
    and row: "row = py_slice row0 c d"
    by (auto simp: slice2_def)
  from r0 have "row0 \<in> set img" using set_py_slice [of img a b] by auto
  then have "length row0 = C" using assms(1) by (rule rect_row_length [rotated])
  then show ?thesis using row by (simp add: length_py_slice)
qed

lemma square_crop_exact:
  assumes "rect N N img" "0 \<le> t" "0 \<le> b" "b \<le> int N" "0 \<le> l" "0 \<le> r" "r \<le> int N"
  shows "slice2 img t (int N - b) l (int N - r) = crop_exact img (nat t) (nat b) (nat l) (nat r)"
proof -
  have len: "length img = N" using assms(1) by (simp add: rect_def)
  have rows: "py_slice img t (int N - b) = take (length img - nat t - nat b) (drop (nat t) img)"
    using py_slice_margins [of t b img] assms(2,3,4) len by simp
  have cols: "py_slice row l (int N - r) = take (length row - nat l - nat r) (drop (nat l) row)"
    if "row \<in> set (take (length img - nat t - nat b) (drop (nat t) img))" for row
  proof -
    from that have "row \<in> set img" by (meson in_set_takeD in_set_dropD)
    then have "length row = N" using assms(1) by (rule rect_row_length [rotated])
    then show ?thesis using py_slice_margins [of l r row] assms(5,6,7) by simp
  qed
  show ?thesis
    unfolding slice2_def crop_exact_def rows using cols by (intro map_cong refl) 
qed

text \<open>
  Claim C10: for an image of \<open>R\<close> rows and \<open>C\<close> columns \<open>crop_image\<close> returns the slice
  \<^verbatim>\<open>image[top : C - bottom, left : R - right]\<close>, the row bound computed from the number of
  columns and the column bound from the number of rows. The claim goes on: only for
  square images does the result remove exactly the given number of pixels from each
  side. For margins that are numbers of pixels within the image (none negative, the
  bottom margin at most \<open>R\<close>, the right margin at most \<open>C\<close>), a square image is cropped
  exactly, and an exactly cropped result that has at least one pixel comes from a square
  image. A result without pixels can be exact for an image that is not square.
\<close>

theorem crop_image_swapped_bounds:
  assumes "rect R C img"
  shows "crop_image img t b l r = slice2 img t (int C - b) l (int R - r)
       \<and> (0 \<le> t \<and> 0 \<le> b \<and> b \<le> int R \<and> 0 \<le> l \<and> 0 \<le> r \<and> r \<le> int C \<longrightarrow>
            (R = C \<longrightarrow> crop_image img t b l r = crop_exact img (nat t) (nat b) (nat l) (nat r))
          \<and> (crop_image img t b l r = crop_exact img (nat t) (nat b) (nat l) (nat r)
               \<and> concat (crop_image img t b l r) \<noteq> [] \<longrightarrow> R = C))"
proof (intro conjI impI)
  show s: "crop_image img t b l r = slice2 img t (int C - b) l (int R - r)"
    using assms by (rule crop_image_slice)
next
  assume m: "0 \<le> t \<and> 0 \<le> b \<and> b \<le> int R \<and> 0 \<le> l \<and> 0 \<le> r \<and> r \<le> int C" and sq: "R = C"
  have "slice2 img t (int C - b) l (int C - r) = crop_exact img (nat t) (nat b) (nat l) (nat r)"
    using assms m sq by (intro square_crop_exact) simp_all
  then show "crop_image img t b l r = crop_exact img (nat t) (nat b) (nat l) (nat r)"
    using crop_image_slice [OF assms] sq by simp
next
  assume m: "0 \<le> t \<and> 0 \<le> b \<and> b \<le> int R \<and> 0 \<le> l \<and> 0 \<le> r \<and> r \<le> int C"
    and e: "crop_image img t b l r = crop_exact img (nat t) (nat b) (nat l) (nat r)
               \<and> concat (crop_image img t b l r) \<noteq> []"
  let ?c = "crop_image img t b l r"
  have s: "?c = slice2 img t (int C - b) l (int R - r)" using assms by (rule crop_image_slice)
  have len: "length img = R" using assms by (simp add: rect_def)
  from e obtain row where row: "row \<in> set ?c" "row \<noteq> []" by auto
  have rows_code: "length ?c = nat (clamp_bound R (int C - b) - clamp_bound R t)"
    unfolding s by (simp add: slice2_def length_py_slice len)
  have rows_exact: "length ?c = R - nat t - nat b"
    using e len by (simp add: length_crop_exact_rows)
  have rows_pos: "0 < length ?c" using row(1) by (cases ?c) auto
  have cols_code: "length row = nat (clamp_bound C (int R - r) - clamp_bound C l)"
    using row(1) unfolding s by (rule slice2_row_length [OF assms])
  have cols_exact: "length row = C - nat l - nat r"
    using row(1) e crop_exact_row_length [OF assms] by simp
  have cols_pos: "0 < length row" using row(2) by simp
  show "R = C"
    using m rows_code rows_exact rows_pos cols_code cols_exact cols_pos
    by (intro swapped_bounds_arith [of t b R l r C]) simp_all
qed

text \<open>A square image of 2 rows and 2 columns, cropped by 1 at the top and 1 at the right.\<close>

theorem crop_image_swapped_bounds_witness:
  "rect 2 2 [[1, 2], [3, 4]]
   \<and> crop_image [[1, 2], [3, 4]] 1 0 0 1 = crop_exact [[1, 2], [3, 4]] (nat 1) (nat 0) (nat 0) (nat 1)
   \<and> crop_exact [[1, 2], [3, 4]] (nat 1) (nat 0) (nat 0) (nat 1) = [[3]]"
proof -
  have r: "rect 2 2 [[1, 2], [3, 4]]" by (simp add: rect_def)
  have m: "(0::int) \<le> 1 \<and> (0::int) \<le> 0 \<and> (0::int) \<le> int 2 \<and> (0::int) \<le> 0 \<and> (0::int) \<le> 1
            \<and> (1::int) \<le> int 2" by simp
  have "crop_image [[1, 2], [3, 4]] 1 0 0 1
          = crop_exact [[1, 2], [3, 4]] (nat 1) (nat 0) (nat 0) (nat 1)"
    using crop_image_swapped_bounds [OF r, of 1 0 0 1] m by blast
  moreover have "crop_exact [[1, 2], [3, 4::real]] (nat 1) (nat 0) (nat 0) (nat 1) = [[3]]"
    by (simp add: crop_exact_def)
  ultimately show ?thesis using r by blast
qed

text \<open>
  Against C10 as stated: the image of 1 row and 2 columns is not square, and with a left
  margin of 2 the result, one row without columns, is exactly the image without its two
  left columns. And margins beyond the image are not removed exactly even from a square
  image: a bottom margin of 3 on 2 rows gives the stop \<open>-1\<close>, which keeps one row.
\<close>

theorem crop_image_not_only_square_counterexample:
  "rect 1 2 [[1, 2]]
   \<and> crop_image [[1, 2]] 0 0 2 0 = crop_exact [[1, 2]] 0 0 2 0
   \<and> rect 2 2 [[1, 2], [3, 4]]
   \<and> crop_image [[1, 2], [3, 4]] 0 3 0 0 \<noteq> crop_exact [[1, 2], [3, 4]] 0 3 0 0"
  by (simp add: rect_def crop_image_def crop_exact_def slice2_def py_slice_def nrows_def ncols_def)

section \<open>Properties of the rotation\<close>











end
